theory Spec2Isabelle
  imports Main "HOL-Library.Word"
begin

section \<open>Python values used by the command line\<close>

text \<open>
  The two commands of \<^verbatim>\<open>cli/main.py\<close> that carry ordering and failure behaviour are
  \<^verbatim>\<open>deploy\<close> and \<^verbatim>\<open>simulate\<close>. Both are sequences of calls to collaborators that live
  outside the file (the deployer classes, click, twisted's reactor, the operating system).
  A collaborator is a field of an environment record; every call that the command makes
  is appended to a log kept in the state, and every exception is a value of \<open>error\<close>, so
  that the state at the moment of the exception can still be inspected.
\<close>

type_synonym bytes = "8 word list"

datatype error =
    Abort                 \<comment> \<open>\<^verbatim>\<open>click.Abort()\<close>, which carries no message\<close>
  | KeyError string       \<comment> \<open>a missing dictionary key\<close>
  | IndexError
  | ValueError
  | TypeError
  | ConfigurationError
  | RecursionError        \<comment> \<open>the interpreter's recursion limit was reached\<close>
  | Raised string         \<comment> \<open>an exception raised by a collaborator\<close>

text \<open>
  A Python \<^verbatim>\<open>dict\<close> keeps its keys in insertion order; assigning to a key that is
  present replaces the value and keeps the position.
\<close>

fun dict_set :: "('k \<times> 'v) list \<Rightarrow> 'k \<Rightarrow> 'v \<Rightarrow> ('k \<times> 'v) list" where
  "dict_set [] k v = [(k, v)]"
| "dict_set ((k', v') # kvs) k v =
     (if k' = k then (k, v) # kvs else (k', v') # dict_set kvs k v)"

definition dict_of :: "('k \<times> 'v) list \<Rightarrow> ('k \<times> 'v) list" where
  "dict_of kvs = foldl (\<lambda>d (k, v). dict_set d k v) [] kvs"

definition dict_get :: "(string \<times> 'v) list \<Rightarrow> string \<Rightarrow> error + 'v" where
  "dict_get d k = (case map_of d k of None \<Rightarrow> Inl (KeyError k) | Some v \<Rightarrow> Inr v)"

fun join :: "string \<Rightarrow> string list \<Rightarrow> string" where
  "join sep [] = []"
| "join sep [x] = x"
| "join sep (x # y # ys) = x @ sep @ join sep (y # ys)"

section \<open>The deploy command\<close>

datatype deployer_class = NucypherTokenDeployer | MinerEscrowDeployer | PolicyManagerDeployer

datatype agent = AgentHandle nat

record deployer_info =
  deployer_class :: deployer_class
  upgradeable :: bool
  agent_name :: string
  dependant :: "string option"

text \<open>The keyword arguments a deployer is constructed with, and the constructed deployer.\<close>

datatype arg = BlockchainArg | AddressArg string | AgentArg agent | SecretArg bytes

datatype deployer = Deployer (class_of: deployer_class) (init_args: "(string \<times> arg) list")

datatype call =
    Connect                     \<comment> \<open>\<^verbatim>\<open>Blockchain.connect\<close>\<close>
  | Construct deployer          \<comment> \<open>\<^verbatim>\<open>deployer_class(**__deployer_init_args)\<close>\<close>
  | Arm deployer                \<comment> \<open>\<^verbatim>\<open>__deployer.arm(abort=False)\<close>\<close>
  | Deploy deployer             \<comment> \<open>\<^verbatim>\<open>__deployer.deploy()\<close>\<close>
  | MakeAgent deployer          \<comment> \<open>\<^verbatim>\<open>__deployer.make_agent()\<close>\<close>
  | Confirm string              \<comment> \<open>\<^verbatim>\<open>click.confirm\<close>\<close>
  | Prompt string               \<comment> \<open>\<^verbatim>\<open>click.prompt\<close>\<close>
  | WriteJson string "(string \<times> (string \<times> string) list) list"

text \<open>
  The collaborators of the deploy command. \<open>contract_name\<close> and \<open>class_name\<close> are the
  \<^verbatim>\<open>_contract_name\<close> and \<^verbatim>\<open>__name__\<close> attributes of the deployer classes, which are
  declared outside this file. \<open>os_urandom k n\<close> is the result of the \<open>k\<close>-th call of
  \<^verbatim>\<open>os.urandom(n)\<close>. The user answers a question by its text.
\<close>

record env =
  contract_name :: "deployer_class \<Rightarrow> string"
  class_name :: "deployer_class \<Rightarrow> string"
  blockchain_connect :: "error option"
  w3_accounts :: "string list"
  provider_uri :: string
  registry_filepath :: string
  deployer_arm :: "deployer \<Rightarrow> bool \<times> string list"
  deployer_deploy :: "deployer \<Rightarrow> error + (string \<times> string) list"
  deployer_make_agent :: "deployer \<Rightarrow> agent"
  os_urandom :: "nat \<Rightarrow> nat \<Rightarrow> bytes"
  click_confirm :: "string \<Rightarrow> bool"
  click_prompt :: "string \<Rightarrow> string"
  recursion_limit :: nat

text \<open>The fields of \<^verbatim>\<open>NucypherClickConfig\<close> that the deploy command reads.\<close>

record click_config =
  federated_only :: bool
  deployer :: bool
  compile :: bool

text \<open>
  The state of one run of the command: the two dictionaries that \<^verbatim>\<open>deploy\<close> creates
  (\<^verbatim>\<open>__deployment_transactions\<close>, \<^verbatim>\<open>__deployment_agents\<close>), the address written to
  \<^verbatim>\<open>config.blockchain.interface.deployer_address\<close>, what was echoed, and the calls made.
\<close>

record dstate =
  deployment_transactions :: "(string \<times> (string \<times> string) list) list"
  deployment_agents :: "(string \<times> agent) list"
  interface_deployer_address :: string
  echoed :: "string list"
  calls :: "call list"
  urandom_calls :: nat

definition initial :: dstate where
  "initial = \<lparr>deployment_transactions = [], deployment_agents = [],
     interface_deployer_address = [], echoed = [], calls = [], urandom_calls = 0\<rparr>"

definition echo :: "string \<Rightarrow> dstate \<Rightarrow> dstate" where
  "echo line st = st\<lparr>echoed := echoed st @ [line]\<rparr>"

definition called :: "call \<Rightarrow> dstate \<Rightarrow> dstate" where
  "called c st = st\<lparr>calls := calls st @ [c]\<rparr>"

text \<open>\<^verbatim>\<open>click.confirm(text, abort=True)\<close>: a refusal raises \<^verbatim>\<open>click.Abort\<close>.\<close>

definition confirm_or_abort :: "env \<Rightarrow> string \<Rightarrow> dstate \<Rightarrow> (error + unit) \<times> dstate" where
  "confirm_or_abort e question st =
     (if click_confirm e question then Inr () else Inl Abort, called (Confirm question) st)"

text \<open>
  \<^verbatim>\<open>config.connect_to_blockchain()\<close>. The proof-of-authority middleware is injected into
  an object of web3 and leaves no trace in this model.
\<close>

definition connect_to_blockchain :: "env \<Rightarrow> click_config \<Rightarrow> dstate \<Rightarrow> (error + unit) \<times> dstate" where
  "connect_to_blockchain e config st =
     (if federated_only config then (Inl ConfigurationError, st)
      else case (if compile config then confirm_or_abort e ''Compile solidity source?'' st
                 else (Inr (), st)) of
        (Inl err, st1) \<Rightarrow> (Inl err, st1)
      | (Inr _, st1) \<Rightarrow>
          (case blockchain_connect e of
             Some err \<Rightarrow> (Inl err, called Connect st1)
           | None \<Rightarrow> (Inr (), called Connect st1)))"

text \<open>
  The table of \<^verbatim>\<open>__get_deployers\<close>: an \<^verbatim>\<open>OrderedDict\<close> built from a dictionary
  literal, keyed by the contract names.
\<close>

definition deployers_table :: "env \<Rightarrow> (string \<times> deployer_info) list" where
  "deployers_table e = dict_of
     [(contract_name e NucypherTokenDeployer,
         \<lparr>deployer_class = NucypherTokenDeployer, upgradeable = False,
          agent_name = ''token_agent'', dependant = None\<rparr>),
      (contract_name e MinerEscrowDeployer,
         \<lparr>deployer_class = MinerEscrowDeployer, upgradeable = True,
          agent_name = ''miner_agent'', dependant = Some ''token_agent''\<rparr>),
      (contract_name e PolicyManagerDeployer,
         \<lparr>deployer_class = PolicyManagerDeployer, upgradeable = True,
          agent_name = ''policy_agent'', dependant = Some ''miner_agent''\<rparr>)]"

text \<open>
  \<^verbatim>\<open>__get_deployers\<close>. \<open>deployer_address\<close> is the command-line option; \<^verbatim>\<open>None\<close> and
  the empty string are both false for \<^verbatim>\<open>or\<close>, and \<open>first_account\<close> is
  \<^verbatim>\<open>deployer_address or config.accounts[0]\<close>, which has no value (\<^verbatim>\<open>IndexError\<close>) when
  the option is false and there is no account.
\<close>

definition first_account :: "env \<Rightarrow> string option \<Rightarrow> string option" where
  "first_account e deployer_address =
     (case deployer_address of
        Some a \<Rightarrow> if a \<noteq> [] then Some a
                  else (case w3_accounts e of [] \<Rightarrow> None | a0 # _ \<Rightarrow> Some a0)
      | None \<Rightarrow> (case w3_accounts e of [] \<Rightarrow> None | a0 # _ \<Rightarrow> Some a0))"

definition get_deployers ::
  "env \<Rightarrow> click_config \<Rightarrow> string option \<Rightarrow> dstate \<Rightarrow>
   (error + (string \<times> deployer_info) list) \<times> dstate" where
  "get_deployers e config deployer_address st =
     (case connect_to_blockchain e config st of
        (Inl err, st1) \<Rightarrow> (Inl err, st1)
      | (Inr _, st1) \<Rightarrow>
          (case first_account e deployer_address of
             None \<Rightarrow> (Inl IndexError, st1)
           | Some a \<Rightarrow>
               (case confirm_or_abort e ''Continue?'' (st1\<lparr>interface_deployer_address := a\<rparr>) of
                  (Inl err, st2) \<Rightarrow> (Inl err, st2)
                | (Inr _, st2) \<Rightarrow> (Inr (deployers_table e), st2))))"

text \<open>
  \<^verbatim>\<open>__collect_secret\<close>. The source draws the secret with \<^verbatim>\<open>os.urandom(32)\<close> and takes a
  copy of it as its confirmation. The checks that follow are written for any pair, so the
  body is given for a pair \<open>pair_source k\<close> drawn at the \<open>k\<close>-th attempt, and
  \<open>collect_secret\<close> below instantiates it as the source does. The function calls itself to
  try again; the first argument is the number of nested calls the interpreter still
  allows, after which Python raises \<^verbatim>\<open>RecursionError\<close>. \<^verbatim>\<open>click.prompt\<close> returns the
  text the user typed, which is true in a condition when it is not empty.
\<close>

fun collect_secret_from ::
  "nat \<Rightarrow> env \<Rightarrow> (nat \<Rightarrow> bytes \<times> bytes) \<Rightarrow> (string \<times> arg) list \<Rightarrow> dstate \<Rightarrow>
   (error + (string \<times> arg) list) \<times> dstate" where
  "collect_secret_from 0 e pair_source args st = (Inl RecursionError, st)"
| "collect_secret_from (Suc depth) e pair_source args st =
     (let (secret, secret_confirmation) = pair_source (urandom_calls st);
          st0 = st\<lparr>urandom_calls := Suc (urandom_calls st)\<rparr>;
          wrong_length = (length secret \<noteq> 32);
          st1 = (if wrong_length
                 then called (Prompt ''Try again?'') (echo ''Deployer secret must be 32 bytes.'' st0)
                 else st0)
      in if wrong_length \<and> click_prompt e ''Try again?'' \<noteq> []
         then collect_secret_from depth e pair_source args st1
         else if secret \<noteq> secret_confirmation
         then (let st2 = called (Prompt ''Try again?'') (echo ''Secrets did not match'' st1)
               in if click_prompt e ''Try again?'' \<noteq> []
                  then collect_secret_from depth e pair_source args st2
                  else (Inl Abort, st2))
         else (Inr (dict_set args ''secret_hash'' (SecretArg secret)), st1))"

definition urandom_pair :: "env \<Rightarrow> nat \<Rightarrow> bytes \<times> bytes" where
  "urandom_pair e k = (let secret = os_urandom e k 32 in (secret, secret))"

definition collect_secret ::
  "env \<Rightarrow> (string \<times> arg) list \<Rightarrow> dstate \<Rightarrow> (error + (string \<times> arg) list) \<times> dstate" where
  "collect_secret e args st = collect_secret_from (recursion_limit e) e (urandom_pair e) args st"

text \<open>
  \<^verbatim>\<open>__deploy_contract\<close>, in the order of the source: the dependency's agent is looked
  up in \<^verbatim>\<open>__deployment_agents\<close>, the secret is collected, the deployer is constructed,
  then armed, then deployed, and its transactions and agent are stored.
\<close>

definition deployer_init_args :: "dstate \<Rightarrow> string option \<Rightarrow> error + (string \<times> arg) list" where
  "deployer_init_args st dep =
     (let args = dict_of [(''blockchain'', BlockchainArg),
                          (''deployer_address'', AddressArg (interface_deployer_address st))]
      in case dep of
           None \<Rightarrow> Inr args
         | Some d \<Rightarrow> (case dict_get (deployment_agents st) d of
                        Inl err \<Rightarrow> Inl err
                      | Inr a \<Rightarrow> Inr (dict_set args d (AgentArg a))))"

definition arm_and_deploy ::
  "env \<Rightarrow> bool \<Rightarrow> deployer_info \<Rightarrow> deployer \<Rightarrow> dstate \<Rightarrow>
   (error + (string \<times> string) list \<times> agent) \<times> dstate" where
  "arm_and_deploy e force info d st =
     (let cname = contract_name e (deployer_class info) in
      case (if \<not> force
            then confirm_or_abort e (''Arm '' @ class_name e (deployer_class info) @ ''?'') st
            else (Inr (), st)) of
        (Inl err, st1) \<Rightarrow> (Inl err, st1)
      | (Inr _, st1) \<Rightarrow>
          (let (is_armed, disqualifications) = deployer_arm e d;
               st2 = called (Arm d) st1
           in if \<not> is_armed
              then (Inl Abort,
                    echo (''Failed to arm '' @ cname @ ''. Disqualifications: ''
                          @ join '', '' disqualifications) st2)
              else case (if \<not> force then confirm_or_abort e (''Deploy '' @ cname @ ''?'') st2
                         else (Inr (), st2)) of
                     (Inl err, st3) \<Rightarrow> (Inl err, st3)
                   | (Inr _, st3) \<Rightarrow>
                       (case deployer_deploy e d of
                          Inl err \<Rightarrow> (Inl err, called (Deploy d) st3)
                        | Inr transactions \<Rightarrow>
                            (let st4 = (called (Deploy d) st3)
                                   \<lparr>deployment_transactions :=
                                      dict_set (deployment_transactions st3) cname transactions\<rparr>;
                                 a = deployer_make_agent e d;
                                 st5 = (called (MakeAgent d) st4)
                                   \<lparr>deployment_agents :=
                                      dict_set (deployment_agents st4) (agent_name info) a\<rparr>
                             in (Inr (transactions, a), st5)))))"

definition deploy_contract ::
  "env \<Rightarrow> bool \<Rightarrow> deployer_info \<Rightarrow> dstate \<Rightarrow>
   (error + (string \<times> string) list \<times> agent) \<times> dstate" where
  "deploy_contract e force info st =
     (case deployer_init_args st (dependant info) of
        Inl err \<Rightarrow> (Inl err, st)
      | Inr args \<Rightarrow>
          (case (if upgradeable info then collect_secret e args st else (Inr args, st)) of
             (Inl err, st1) \<Rightarrow> (Inl err, st1)
           | (Inr args1, st1) \<Rightarrow>
               (let d = Deployer (deployer_class info) args1
                in arm_and_deploy e force info d (called (Construct d) st1))))"

text \<open>The loop over \<^verbatim>\<open>deployers.items()\<close>: the first exception ends it.\<close>

fun deploy_all ::
  "env \<Rightarrow> bool \<Rightarrow> (string \<times> deployer_info) list \<Rightarrow> dstate \<Rightarrow> (error + unit) \<times> dstate" where
  "deploy_all e force [] st = (Inr (), st)"
| "deploy_all e force ((deployer_name, info) # rest) st =
     (case deploy_contract e force info st of
        (Inl err, st1) \<Rightarrow> (Inl err, st1)
      | (Inr _, st1) \<Rightarrow> deploy_all e force rest st1)"

text \<open>
  The two questions that end the command. The lines echoed for the transaction hashes
  are \<^verbatim>\<open>contract_name\<close> and then \<^verbatim>\<open>"{}:{}".format(tx_name, txhash)\<close> for each
  transaction; the file receives \<^verbatim>\<open>json.dumps(__deployment_transactions)\<close>, logged
  here as the dictionary itself.
\<close>

definition transaction_lines :: "(string \<times> (string \<times> string) list) list \<Rightarrow> string list" where
  "transaction_lines txs =
     concat (map (\<lambda>(cname, transactions).
                    cname # map (\<lambda>(tx_name, txhash). tx_name @ '':'' @ txhash) transactions) txs)"

definition view_and_save :: "env \<Rightarrow> bool \<Rightarrow> dstate \<Rightarrow> (error + unit) \<times> dstate" where
  "view_and_save e force st =
     (let st1 = (if \<not> force
                 then (let st' = called (Prompt ''View deployment transaction hashes?'') st
                       in if click_prompt e ''View deployment transaction hashes?'' \<noteq> []
                          then st'\<lparr>echoed := echoed st' @ transaction_lines (deployment_transactions st')\<rparr>
                          else st')
                 else st)
      in if \<not> force
         then (let st2 = called (Confirm ''Save transaction hashes to JSON file?'') st1
               in if click_confirm e ''Save transaction hashes to JSON file?''
                  then (let filepath = click_prompt e ''Enter output filepath'';
                            st3 = called (Prompt ''Enter output filepath'') st2;
                            st4 = called (WriteJson filepath (deployment_transactions st3)) st3
                        in (Inr (), echo (''Successfully wrote transaction hashes file to '' @ filepath) st4))
                  else (Inr (), st2))
         else (Inr (), st1))"

text \<open>
  The command. \<open>contract_name_opt\<close> is the \<^verbatim>\<open>--contract-name\<close> option, false in a
  condition when it is absent or empty. A run starts from \<open>initial\<close>: both dictionaries
  are created empty by the command itself.
\<close>

definition deploy ::
  "env \<Rightarrow> click_config \<Rightarrow> string \<Rightarrow> string option \<Rightarrow> string option \<Rightarrow> bool \<Rightarrow>
   (error + unit) \<times> dstate" where
  "deploy e config action deployer_address contract_name_opt force =
     (if \<not> deployer config
      then (Inl Abort, echo ''The --deployer flag must be used to issue the deploy command.'' initial)
      else if action = ''contracts'' then
        (case get_deployers e config deployer_address initial of
           (Inl err, st1) \<Rightarrow> (Inl err, st1)
         | (Inr deployers, st1) \<Rightarrow>
             (let available_deployers = join '', '' (map fst deployers);
                  st2 = echo (''-----------------------------------------------'' @ [CHR 0x0A])
                       (echo (''Deployer's Address ........ '' @ interface_deployer_address st1)
                       (echo (''Registry Output Filepath .. '' @ registry_filepath e)
                       (echo (''Blockchain Provider URI ... '' @ provider_uri e)
                       (echo (''Available Deployers: '' @ available_deployers)
                       (echo (CHR 0x0A # ''-----------------------------------------------'') st1)))))
              in case (case contract_name_opt of
                         None \<Rightarrow> deploy_all e force deployers st2
                       | Some name \<Rightarrow>
                           if name = [] then deploy_all e force deployers st2
                           else (case map_of deployers name of
                                   None \<Rightarrow>
                                     (Inr (), echo (''No such contract '' @ name
                                                    @ ''. Available contracts are ''
                                                    @ available_deployers) st2)
                                 | Some info \<Rightarrow>
                                     (case deploy_contract e force info st2 of
                                        (Inl err, st3) \<Rightarrow> (Inl err, st3)
                                      | (Inr _, st3) \<Rightarrow> (Inr (), st3)))) of
                   (Inl err, st3) \<Rightarrow> (Inl err, st3)
                 | (Inr _, st3) \<Rightarrow> view_and_save e force st3))
      else (Inr (), initial))"

section \<open>What a run is observed by\<close>

text \<open>
  The calls made on deployer objects, in order; the deployers that a complete run of the
  three units constructs; and a sample environment in which every collaborator succeeds.
\<close>

fun is_deployer_call :: "call \<Rightarrow> bool" where
  "is_deployer_call (Construct d) = True"
| "is_deployer_call (Arm d) = True"
| "is_deployer_call (Deploy d) = True"
| "is_deployer_call (MakeAgent d) = True"
| "is_deployer_call c = False"

definition deployer_calls :: "dstate \<Rightarrow> call list" where
  "deployer_calls st = filter is_deployer_call (calls st)"

definition base_args :: "string \<Rightarrow> (string \<times> arg) list" where
  "base_args a = [(''blockchain'', BlockchainArg), (''deployer_address'', AddressArg a)]"

definition token_deployer :: "string \<Rightarrow> deployer" where
  "token_deployer a = Deployer NucypherTokenDeployer (base_args a)"

definition escrow_deployer :: "env \<Rightarrow> string \<Rightarrow> deployer" where
  "escrow_deployer e a = Deployer MinerEscrowDeployer
     (base_args a @ [(''token_agent'', AgentArg (deployer_make_agent e (token_deployer a))),
                     (''secret_hash'', SecretArg (os_urandom e 0 32))])"

definition policy_deployer :: "env \<Rightarrow> string \<Rightarrow> deployer" where
  "policy_deployer e a = Deployer PolicyManagerDeployer
     (base_args a @ [(''miner_agent'', AgentArg (deployer_make_agent e (escrow_deployer e a))),
                     (''secret_hash'', SecretArg (os_urandom e 1 32))])"

definition lifecycle :: "deployer \<Rightarrow> call list" where
  "lifecycle d = [Construct d, Arm d, Deploy d, MakeAgent d]"

definition distinct_names :: "env \<Rightarrow> bool" where
  "distinct_names e = distinct (map (contract_name e)
     [NucypherTokenDeployer, MinerEscrowDeployer, PolicyManagerDeployer])"

definition confirms_units :: "env \<Rightarrow> bool" where
  "confirms_units e = (\<forall>c. click_confirm e (''Arm '' @ class_name e c @ ''?'')
                         \<and> click_confirm e (''Deploy '' @ contract_name e c @ ''?''))"

definition example_env :: env where
  "example_env = \<lparr>
     contract_name = (\<lambda>c. case c of NucypherTokenDeployer \<Rightarrow> ''NuCypherToken''
                        | MinerEscrowDeployer \<Rightarrow> ''MinersEscrow''
                        | PolicyManagerDeployer \<Rightarrow> ''PolicyManager''),
     class_name = (\<lambda>c. case c of NucypherTokenDeployer \<Rightarrow> ''NucypherTokenDeployer''
                        | MinerEscrowDeployer \<Rightarrow> ''MinerEscrowDeployer''
                        | PolicyManagerDeployer \<Rightarrow> ''PolicyManagerDeployer''),
     blockchain_connect = None,
     w3_accounts = [''0xA0''],
     provider_uri = ''tester://pyevm'',
     registry_filepath = ''registry.json'',
     deployer_arm = (\<lambda>d. (True, [])),
     deployer_deploy = (\<lambda>d. Inr [(''txhash'', ''0x01'')]),
     deployer_make_agent = (\<lambda>d. AgentHandle (length (init_args d))),
     os_urandom = (\<lambda>k n. replicate n (of_nat k)),
     click_confirm = (\<lambda>q. True),
     click_prompt = (\<lambda>q. ''y''),
     recursion_limit = 900\<rparr>"

definition example_config :: click_config where
  "example_config = \<lparr>federated_only = False, deployer = True, compile = False\<rparr>"



section \<open>The order of a complete deployment\<close>

lemma collect_secret_valid:
  assumes "length (os_urandom e (urandom_calls st) 32) = 32" "recursion_limit e \<noteq> 0"
  shows "collect_secret e args st =
    (Inr (dict_set args ''secret_hash'' (SecretArg (os_urandom e (urandom_calls st) 32))),
     st\<lparr>urandom_calls := Suc (urandom_calls st)\<rparr>)"
proof -
  obtain n where n: "recursion_limit e = Suc n"
    using assms(2) by (cases "recursion_limit e") auto
  show ?thesis
    using assms(1) by (simp add: collect_secret_def n urandom_pair_def Let_def)
qed

lemma arm_and_deploy_ok:
  assumes "force \<or> (click_confirm e (''Arm '' @ class_name e (deployer_class info) @ ''?'')
                    \<and> click_confirm e (''Deploy '' @ contract_name e (deployer_class info) @ ''?''))"
    and "fst (deployer_arm e d)" and "deployer_deploy e d = Inr txs"
  shows "\<exists>st'. arm_and_deploy e force info d st = (Inr (txs, deployer_make_agent e d), st')
      \<and> deployer_calls st' = deployer_calls st @ [Arm d, Deploy d, MakeAgent d]
      \<and> deployment_agents st' =
          dict_set (deployment_agents st) (agent_name info) (deployer_make_agent e d)
      \<and> deployment_transactions st' =
          dict_set (deployment_transactions st) (contract_name e (deployer_class info)) txs
      \<and> urandom_calls st' = urandom_calls st
      \<and> interface_deployer_address st' = interface_deployer_address st"
proof -
  obtain ds where ds: "deployer_arm e d = (True, ds)"
    using assms(2) by (cases "deployer_arm e d") auto
  show ?thesis
  proof (cases force)
    case True
    then show ?thesis using assms(3) ds
      by (simp add: arm_and_deploy_def deployer_calls_def called_def Let_def)
  next
    case False
    then show ?thesis using assms(1,3) ds
      by (simp add: arm_and_deploy_def deployer_calls_def called_def confirm_or_abort_def Let_def)
  qed
qed

lemma deploy_contract_ok:
  assumes "deployer_init_args st (dependant info) = Inr args"
    and "upgradeable info \<longrightarrow>
           length (os_urandom e (urandom_calls st) 32) = 32 \<and> recursion_limit e \<noteq> 0"
    and "d = Deployer (deployer_class info)
           (if upgradeable info
            then dict_set args ''secret_hash'' (SecretArg (os_urandom e (urandom_calls st) 32))
            else args)"
    and "force \<or> (click_confirm e (''Arm '' @ class_name e (deployer_class info) @ ''?'')
                    \<and> click_confirm e (''Deploy '' @ contract_name e (deployer_class info) @ ''?''))"
    and "fst (deployer_arm e d)" and "deployer_deploy e d = Inr txs"
  shows "\<exists>st'. deploy_contract e force info st = (Inr (txs, deployer_make_agent e d), st')
      \<and> deployer_calls st' = deployer_calls st @ [Construct d, Arm d, Deploy d, MakeAgent d]
      \<and> deployment_agents st' =
          dict_set (deployment_agents st) (agent_name info) (deployer_make_agent e d)
      \<and> deployment_transactions st' =
          dict_set (deployment_transactions st) (contract_name e (deployer_class info)) txs
      \<and> urandom_calls st' = (if upgradeable info then Suc (urandom_calls st) else urandom_calls st)
      \<and> interface_deployer_address st' = interface_deployer_address st"
proof (cases "upgradeable info")
  case True
  let ?st1 = "called (Construct d) (st\<lparr>urandom_calls := Suc (urandom_calls st)\<rparr>)"
  from arm_and_deploy_ok [OF assms(4,5,6), of ?st1]
  obtain st' where st': "arm_and_deploy e force info d ?st1 = (Inr (txs, deployer_make_agent e d), st')"
    "deployer_calls st' = deployer_calls ?st1 @ [Arm d, Deploy d, MakeAgent d]"
    "deployment_agents st' = dict_set (deployment_agents ?st1) (agent_name info) (deployer_make_agent e d)"
    "deployment_transactions st' = dict_set (deployment_transactions ?st1) (contract_name e (deployer_class info)) txs"
    "urandom_calls st' = urandom_calls ?st1"
    "interface_deployer_address st' = interface_deployer_address ?st1"
    by blast
  have "deploy_contract e force info st = arm_and_deploy e force info d ?st1"
    using True assms(1,2,3) by (simp add: deploy_contract_def collect_secret_valid Let_def)
  with st' show ?thesis
    by (simp add: True called_def deployer_calls_def)
next
  case False
  let ?st1 = "called (Construct d) st"
  from arm_and_deploy_ok [OF assms(4,5,6), of ?st1]
  obtain st' where st': "arm_and_deploy e force info d ?st1 = (Inr (txs, deployer_make_agent e d), st')"
    "deployer_calls st' = deployer_calls ?st1 @ [Arm d, Deploy d, MakeAgent d]"
    "deployment_agents st' = dict_set (deployment_agents ?st1) (agent_name info) (deployer_make_agent e d)"
    "deployment_transactions st' = dict_set (deployment_transactions ?st1) (contract_name e (deployer_class info)) txs"
    "urandom_calls st' = urandom_calls ?st1"
    "interface_deployer_address st' = interface_deployer_address ?st1"
    by blast
  have "deploy_contract e force info st = arm_and_deploy e force info d ?st1"
    using False assms(1,3) by (simp add: deploy_contract_def Let_def)
  with st' show ?thesis
    by (simp add: False called_def deployer_calls_def)
qed

lemma deployers_table_distinct:
  "distinct_names e \<Longrightarrow> deployers_table e =
     [(contract_name e NucypherTokenDeployer,
         \<lparr>deployer_class = NucypherTokenDeployer, upgradeable = False,
          agent_name = ''token_agent'', dependant = None\<rparr>),
      (contract_name e MinerEscrowDeployer,
         \<lparr>deployer_class = MinerEscrowDeployer, upgradeable = True,
          agent_name = ''miner_agent'', dependant = Some ''token_agent''\<rparr>),
      (contract_name e PolicyManagerDeployer,
         \<lparr>deployer_class = PolicyManagerDeployer, upgradeable = True,
          agent_name = ''policy_agent'', dependant = Some ''miner_agent''\<rparr>)]"
  by (auto simp: deployers_table_def dict_of_def distinct_names_def)

lemma get_deployers_ok:
  assumes "\<not> federated_only config" "blockchain_connect e = None"
    "compile config \<longrightarrow> click_confirm e ''Compile solidity source?''"
    "first_account e deployer_address = Some a" "click_confirm e ''Continue?''"
  shows "\<exists>st'. get_deployers e config deployer_address initial = (Inr (deployers_table e), st')
     \<and> deployer_calls st' = [] \<and> deployment_agents st' = [] \<and> deployment_transactions st' = []
     \<and> urandom_calls st' = 0 \<and> interface_deployer_address st' = a"
  using assms
  by (cases "compile config")
     (simp_all add: get_deployers_def connect_to_blockchain_def confirm_or_abort_def called_def
        deployer_calls_def initial_def first_account_def)

lemma echo_keeps [simp]:
  "deployer_calls (echo l st) = deployer_calls st"
  "deployment_agents (echo l st) = deployment_agents st"
  "deployment_transactions (echo l st) = deployment_transactions st"
  "urandom_calls (echo l st) = urandom_calls st"
  "interface_deployer_address (echo l st) = interface_deployer_address st"
  by (simp_all add: echo_def deployer_calls_def)

lemma view_and_save_keeps:
  "fst (view_and_save e force st) = Inr ()"
  "deployer_calls (snd (view_and_save e force st)) = deployer_calls st"
  "deployment_agents (snd (view_and_save e force st)) = deployment_agents st"
  "deployment_transactions (snd (view_and_save e force st)) = deployment_transactions st"
  by (simp_all add: view_and_save_def Let_def called_def echo_def deployer_calls_def)

lemma deploy_all_ok:
  assumes names: "distinct_names e"
    and rnd: "\<forall>k. length (os_urandom e k 32) = 32" "recursion_limit e \<noteq> 0"
    and yes: "force \<or> confirms_units e"
    and armed: "fst (deployer_arm e (token_deployer a))" "fst (deployer_arm e (escrow_deployer e a))"
      "fst (deployer_arm e (policy_deployer e a))"
    and txs: "deployer_deploy e (token_deployer a) = Inr tT"
      "deployer_deploy e (escrow_deployer e a) = Inr tE"
      "deployer_deploy e (policy_deployer e a) = Inr tP"
    and st: "deployment_agents st = []" "deployment_transactions st = []"
      "urandom_calls st = 0" "interface_deployer_address st = a"
  shows "\<exists>st'. deploy_all e force (deployers_table e) st = (Inr (), st')
     \<and> deployer_calls st' = deployer_calls st @ lifecycle (token_deployer a)
          @ lifecycle (escrow_deployer e a) @ lifecycle (policy_deployer e a)
     \<and> deployment_transactions st' =
          [(contract_name e NucypherTokenDeployer, tT), (contract_name e MinerEscrowDeployer, tE),
           (contract_name e PolicyManagerDeployer, tP)]
     \<and> deployment_agents st' =
          [(''token_agent'', deployer_make_agent e (token_deployer a)),
           (''miner_agent'', deployer_make_agent e (escrow_deployer e a)),
           (''policy_agent'', deployer_make_agent e (policy_deployer e a))]"
proof -
  let ?iT = "\<lparr>deployer_class = NucypherTokenDeployer, upgradeable = False,
          agent_name = ''token_agent'', dependant = None\<rparr>"
  let ?iE = "\<lparr>deployer_class = MinerEscrowDeployer, upgradeable = True,
          agent_name = ''miner_agent'', dependant = Some ''token_agent''\<rparr>"
  let ?iP = "\<lparr>deployer_class = PolicyManagerDeployer, upgradeable = True,
          agent_name = ''policy_agent'', dependant = Some ''miner_agent''\<rparr>"
  have yes': "force \<or> (click_confirm e (''Arm '' @ class_name e c @ ''?'')
                    \<and> click_confirm e (''Deploy '' @ contract_name e c @ ''?''))" for c
    using yes by (auto simp: confirms_units_def)
  have ne: "contract_name e NucypherTokenDeployer \<noteq> contract_name e MinerEscrowDeployer"
    "contract_name e NucypherTokenDeployer \<noteq> contract_name e PolicyManagerDeployer"
    "contract_name e MinerEscrowDeployer \<noteq> contract_name e PolicyManagerDeployer"
    using names by (auto simp: distinct_names_def)
  have aT: "deployer_init_args st (dependant ?iT) = Inr (base_args a)"
    using st by (simp add: deployer_init_args_def dict_of_def base_args_def)
  have "\<exists>st'. deploy_contract e force ?iT st
          = (Inr (tT, deployer_make_agent e (token_deployer a)), st')
      \<and> deployer_calls st' = deployer_calls st @ [Construct (token_deployer a),
           Arm (token_deployer a), Deploy (token_deployer a), MakeAgent (token_deployer a)]
      \<and> deployment_agents st' =
          dict_set (deployment_agents st) (agent_name ?iT) (deployer_make_agent e (token_deployer a))
      \<and> deployment_transactions st' =
          dict_set (deployment_transactions st) (contract_name e (deployer_class ?iT)) tT
      \<and> urandom_calls st' = (if upgradeable ?iT then Suc (urandom_calls st) else urandom_calls st)
      \<and> interface_deployer_address st' = interface_deployer_address st"
    by (rule deploy_contract_ok [OF aT])
       (use yes' armed txs in \<open>simp_all add: token_deployer_def\<close>)
  then obtain s1 where s1:
    "deploy_contract e force ?iT st = (Inr (tT, deployer_make_agent e (token_deployer a)), s1)"
    "deployer_calls s1 = deployer_calls st @ lifecycle (token_deployer a)"
    "deployment_agents s1 = [(''token_agent'', deployer_make_agent e (token_deployer a))]"
    "deployment_transactions s1 = [(contract_name e NucypherTokenDeployer, tT)]"
    "urandom_calls s1 = 0" "interface_deployer_address s1 = a"
    using st by (auto simp: lifecycle_def)
  have aE: "deployer_init_args s1 (dependant ?iE) = Inr (base_args a
      @ [(''token_agent'', AgentArg (deployer_make_agent e (token_deployer a)))])"
    using s1 by (simp add: deployer_init_args_def dict_of_def dict_get_def base_args_def)
  have "\<exists>st'. deploy_contract e force ?iE s1
          = (Inr (tE, deployer_make_agent e (escrow_deployer e a)), st')
      \<and> deployer_calls st' = deployer_calls s1 @ [Construct (escrow_deployer e a),
           Arm (escrow_deployer e a), Deploy (escrow_deployer e a), MakeAgent (escrow_deployer e a)]
      \<and> deployment_agents st' =
          dict_set (deployment_agents s1) (agent_name ?iE) (deployer_make_agent e (escrow_deployer e a))
      \<and> deployment_transactions st' =
          dict_set (deployment_transactions s1) (contract_name e (deployer_class ?iE)) tE
      \<and> urandom_calls st' = (if upgradeable ?iE then Suc (urandom_calls s1) else urandom_calls s1)
      \<and> interface_deployer_address st' = interface_deployer_address s1"
    by (rule deploy_contract_ok [OF aE])
       (use yes' armed txs rnd s1 in \<open>simp_all add: escrow_deployer_def base_args_def\<close>)
  then obtain s2 where s2:
    "deploy_contract e force ?iE s1 = (Inr (tE, deployer_make_agent e (escrow_deployer e a)), s2)"
    "deployer_calls s2 = deployer_calls s1 @ lifecycle (escrow_deployer e a)"
    "deployment_agents s2 = [(''token_agent'', deployer_make_agent e (token_deployer a)),
       (''miner_agent'', deployer_make_agent e (escrow_deployer e a))]"
    "deployment_transactions s2 = [(contract_name e NucypherTokenDeployer, tT),
       (contract_name e MinerEscrowDeployer, tE)]"
    "urandom_calls s2 = 1" "interface_deployer_address s2 = a"
    using s1 ne by (auto simp: lifecycle_def)
  have aP: "deployer_init_args s2 (dependant ?iP) = Inr (base_args a
      @ [(''miner_agent'', AgentArg (deployer_make_agent e (escrow_deployer e a)))])"
    using s2 by (simp add: deployer_init_args_def dict_of_def dict_get_def base_args_def)
  have "\<exists>st'. deploy_contract e force ?iP s2
          = (Inr (tP, deployer_make_agent e (policy_deployer e a)), st')
      \<and> deployer_calls st' = deployer_calls s2 @ [Construct (policy_deployer e a),
           Arm (policy_deployer e a), Deploy (policy_deployer e a), MakeAgent (policy_deployer e a)]
      \<and> deployment_agents st' =
          dict_set (deployment_agents s2) (agent_name ?iP) (deployer_make_agent e (policy_deployer e a))
      \<and> deployment_transactions st' =
          dict_set (deployment_transactions s2) (contract_name e (deployer_class ?iP)) tP
      \<and> urandom_calls st' = (if upgradeable ?iP then Suc (urandom_calls s2) else urandom_calls s2)
      \<and> interface_deployer_address st' = interface_deployer_address s2"
    by (rule deploy_contract_ok [OF aP])
       (use yes' armed txs rnd s2 in \<open>simp_all add: policy_deployer_def base_args_def\<close>)
  then obtain s3 where s3:
    "deploy_contract e force ?iP s2 = (Inr (tP, deployer_make_agent e (policy_deployer e a)), s3)"
    "deployer_calls s3 = deployer_calls s2 @ lifecycle (policy_deployer e a)"
    "deployment_agents s3 = [(''token_agent'', deployer_make_agent e (token_deployer a)),
       (''miner_agent'', deployer_make_agent e (escrow_deployer e a)),
       (''policy_agent'', deployer_make_agent e (policy_deployer e a))]"
    "deployment_transactions s3 = [(contract_name e NucypherTokenDeployer, tT),
       (contract_name e MinerEscrowDeployer, tE), (contract_name e PolicyManagerDeployer, tP)]"
    using s2 ne by (auto simp: lifecycle_def)
  have "deploy_all e force (deployers_table e) st = (Inr (), s3)"
    by (simp add: deployers_table_distinct [OF names] s1(1) s2(1) s3(1))
  with s1 s2 s3 show ?thesis by simp
qed

text \<open>
  Claim C1. When no contract name is given and every collaborator succeeds (the command
  has the deployer flag, the connection is made, the user confirms, the three contract
  names differ, \<^verbatim>\<open>os.urandom(32)\<close> returns 32 bytes, each deployer arms and deploys),
  the command returns normally and the calls made on deployer objects are exactly the
  construction, arming, deployment and \<^verbatim>\<open>make_agent\<close> of the token deployer, then of
  the escrow deployer, then of the policy manager deployer. The escrow deployer is the one
  constructed with the agent that \<^verbatim>\<open>make_agent\<close> of the token deployer returned, the
  policy manager deployer the one constructed with the agent of the escrow deployer; each
  is constructed after that \<^verbatim>\<open>make_agent\<close> call and before its own arming.
\<close>

theorem deploy_all_order:
  assumes "deployer config" "\<not> federated_only config" "blockchain_connect e = None"
    and "compile config \<longrightarrow> click_confirm e ''Compile solidity source?''"
    and "first_account e deployer_address = Some a" "click_confirm e ''Continue?''"
    and "distinct_names e"
    and "\<forall>k. length (os_urandom e k 32) = 32" "recursion_limit e \<noteq> 0"
    and "force \<or> confirms_units e"
    and "fst (deployer_arm e (token_deployer a))" "fst (deployer_arm e (escrow_deployer e a))"
      "fst (deployer_arm e (policy_deployer e a))"
    and "deployer_deploy e (token_deployer a) = Inr tT"
      "deployer_deploy e (escrow_deployer e a) = Inr tE"
      "deployer_deploy e (policy_deployer e a) = Inr tP"
    and "contract_name_opt = None \<or> contract_name_opt = Some []"
  shows "fst (deploy e config ''contracts'' deployer_address contract_name_opt force) = Inr ()
     \<and> deployer_calls (snd (deploy e config ''contracts'' deployer_address contract_name_opt force))
         = lifecycle (token_deployer a) @ lifecycle (escrow_deployer e a)
           @ lifecycle (policy_deployer e a)
     \<and> escrow_deployer e a = Deployer MinerEscrowDeployer
         (base_args a @ [(''token_agent'', AgentArg (deployer_make_agent e (token_deployer a))),
                         (''secret_hash'', SecretArg (os_urandom e 0 32))])
     \<and> policy_deployer e a = Deployer PolicyManagerDeployer
         (base_args a @ [(''miner_agent'', AgentArg (deployer_make_agent e (escrow_deployer e a))),
                         (''secret_hash'', SecretArg (os_urandom e 1 32))])"
proof -
  obtain s0 where s0:
    "get_deployers e config deployer_address initial = (Inr (deployers_table e), s0)"
    "deployer_calls s0 = []" "deployment_agents s0 = []" "deployment_transactions s0 = []"
    "urandom_calls s0 = 0" "interface_deployer_address s0 = a"
    using get_deployers_ok [OF assms(2,3,4,5,6)] by blast
  define s1 where "s1 = echo (''-----------------------------------------------'' @ [CHR 0x0A])
                       (echo (''Deployer's Address ........ '' @ interface_deployer_address s0)
                       (echo (''Registry Output Filepath .. '' @ registry_filepath e)
                       (echo (''Blockchain Provider URI ... '' @ provider_uri e)
                       (echo (''Available Deployers: '' @ join '', '' (map fst (deployers_table e)))
                       (echo (CHR 0x0A # ''-----------------------------------------------'') s0)))))"
  have s1: "deployer_calls s1 = []" "deployment_agents s1 = []" "deployment_transactions s1 = []"
    "urandom_calls s1 = 0" "interface_deployer_address s1 = a"
    using s0 by (simp_all add: s1_def)
  obtain s2 where s2: "deploy_all e force (deployers_table e) s1 = (Inr (), s2)"
    "deployer_calls s2 = deployer_calls s1 @ lifecycle (token_deployer a)
          @ lifecycle (escrow_deployer e a) @ lifecycle (policy_deployer e a)"
    using deploy_all_ok [OF assms(7-16) s1(2,3,4,5)] by blast
  have "deploy e config ''contracts'' deployer_address contract_name_opt force
          = view_and_save e force s2"
    using assms(1,17) s0(1) s2(1) by (auto simp: deploy_def Let_def s1_def)
  then show ?thesis
    using s2(2) s1(1) by (simp add: view_and_save_keeps escrow_deployer_def policy_deployer_def)
qed

text \<open>The sample environment satisfies every hypothesis of the theorem.\<close>

theorem deploy_all_order_witness:
  "deployer_calls (snd (deploy example_env example_config ''contracts'' None None True))
     = lifecycle (token_deployer ''0xA0'') @ lifecycle (escrow_deployer example_env ''0xA0'')
       @ lifecycle (policy_deployer example_env ''0xA0'')"
  using deploy_all_order [of example_config example_env None "''0xA0''" True
      "[(''txhash'', ''0x01'')]" "[(''txhash'', ''0x01'')]" "[(''txhash'', ''0x01'')]" None]
  by (simp add: example_env_def example_config_def first_account_def distinct_names_def)

end
